theory Spec2Isabelle
  imports Complex_Main "HOL-Library.Multiset" "HOL-Library.Char_ord" "HOL-Library.List_Lexorder"
begin

section \<open>Floating-point columns\<close>

text \<open>
  The numeric columns of the data frames are float64 columns.  A cell is modelled as a
  real number or one of the three special values that the arithmetic of the program can
  produce (division by a zero price, aggregation of an all-missing column).  Finite
  values are idealised as exact reals; signed zeros are not distinguished.
\<close>

datatype fval = Fin real | PInf | NInf | NaN

fun isna :: "fval \<Rightarrow> bool" where
  "isna NaN = True"
| "isna _ = False"

text \<open>IEEE comparison \<open>a < b\<close>: false as soon as one side is NaN.\<close>

fun flt :: "fval \<Rightarrow> fval \<Rightarrow> bool" where
  "flt NaN _ = False"
| "flt _ NaN = False"
| "flt (Fin a) (Fin b) = (a < b)"
| "flt (Fin a) PInf = True"
| "flt (Fin a) NInf = False"
| "flt PInf _ = False"
| "flt NInf NInf = False"
| "flt NInf _ = True"

text \<open>IEEE comparison \<open>a \<le> b\<close>.\<close>

fun fle :: "fval \<Rightarrow> fval \<Rightarrow> bool" where
  "fle NaN _ = False"
| "fle _ NaN = False"
| "fle a b = (a = b \<or> flt a b)"

text \<open>\<open>abs(x)\<close> on a float.\<close>

fun fabs :: "fval \<Rightarrow> fval" where
  "fabs (Fin a) = Fin \<bar>a\<bar>"
| "fabs PInf = PInf"
| "fabs NInf = PInf"
| "fabs NaN = NaN"

text \<open>Float addition; opposite infinities cancel to NaN.\<close>

fun fadd :: "fval \<Rightarrow> fval \<Rightarrow> fval" where
  "fadd NaN _ = NaN"
| "fadd _ NaN = NaN"
| "fadd (Fin a) (Fin b) = Fin (a + b)"
| "fadd PInf NInf = NaN"
| "fadd NInf PInf = NaN"
| "fadd PInf _ = PInf"
| "fadd _ PInf = PInf"
| "fadd NInf _ = NInf"
| "fadd _ NInf = NInf"

text \<open>
  Element-wise true division of two finite cells, as the data-frame library performs it:
  no exception on a zero divisor, but a signed infinity, or NaN for \<open>0 / 0\<close>.
\<close>

definition fdiv :: "real \<Rightarrow> real \<Rightarrow> fval" where
  "fdiv a b = (if b \<noteq> 0 then Fin (a / b)
               else if 0 < a then PInf else if a < 0 then NInf else NaN)"

text \<open>Multiplication and division of a cell by a positive finite constant.\<close>

fun fscale :: "fval \<Rightarrow> real \<Rightarrow> fval" where
  "fscale (Fin a) c = Fin (a * c)"
| "fscale x c = x"

fun fdivc :: "fval \<Rightarrow> real \<Rightarrow> fval" where
  "fdivc (Fin a) c = Fin (a / c)"
| "fdivc x c = x"

section \<open>Rounding to two decimals\<close>

text \<open>
  \<open>DataFrame.round(2)\<close> scales by 100, rounds to the nearest integer with ties going to
  the even neighbour, and scales back.  Integer columns are left alone; infinities and
  NaN stay what they are.
\<close>

definition rint :: "real \<Rightarrow> int" where
  "rint r = (let f = \<lfloor>r\<rfloor>; d = r - of_int f in
             if d < 1/2 then f else if 1/2 < d then f + 1
             else if even f then f else f + 1)"

definition round2 :: "real \<Rightarrow> real" where
  "round2 r = of_int (rint (r * 100)) / 100"

fun fround2 :: "fval \<Rightarrow> fval" where
  "fround2 (Fin r) = Fin (round2 r)"
| "fround2 x = x"

section \<open>Snapshots and the comparison frame\<close>

text \<open>
  The four key columns are shared by the snapshot tables and by the comparison frame.
  The rows of a snapshot are modelled with every cell present: text keys and a finite
  price.  The comparison frame is the table the two analyses receive; there a text cell
  may be missing (\<open>None\<close>) and a numeric cell may be NaN, which is how the library
  represents an empty cell, and the aggregations below treat such cells as the library
  does.
\<close>

record 'c flight_key =
  origin :: 'c
  destination :: 'c
  depart_date :: 'c
  gate :: 'c

record observation = "string flight_key" +
  price_eur :: real

record delta = "string option flight_key" +
  price_eur_new :: fval
  price_eur_old :: fval
  price_diff :: fval
  change_pct :: fval
  route :: "string option"
  change_type :: "string option"

definition merge_cols :: "('c, 'a) flight_key_scheme \<Rightarrow> 'c \<times> 'c \<times> 'c \<times> 'c" where
  "merge_cols r = (origin r, destination r, depart_date r, gate r)"

text \<open>A key of a snapshot row as it appears in the comparison frame.\<close>

definition present_key :: "string \<times> string \<times> string \<times> string \<Rightarrow>
    string option \<times> string option \<times> string option \<times> string option" where
  "present_key k = (case k of (a, b, c, g) \<Rightarrow> (Some a, Some b, Some c, Some g))"

text \<open>
  \<open>pd.merge(left, right, on=merge_cols, how='inner')\<close>: every pair of a left row and a
  right row with equal key columns, in the order of the left rows.
\<close>

definition merge_inner :: "observation list \<Rightarrow> observation list \<Rightarrow> (observation \<times> observation) list" where
  "merge_inner left right =
     concat (map (\<lambda>l. map (\<lambda>r. (l, r)) (filter (\<lambda>r. merge_cols r = merge_cols l) right)) left)"

text \<open>
  \<open>pd.cut(x, bins, labels)\<close> with the default \<open>right=True\<close>: the position of \<open>x\<close> among
  the bin edges is the number of edges strictly below it; a value at or below the first
  edge, above the last one, or missing, gets no category.
\<close>

definition cut_bins :: "fval list" where
  "cut_bins = [NInf, Fin (-5), Fin (-1), Fin 1, Fin 5, PInf]"

definition cut_labels :: "string list" where
  "cut_labels = [''Major Drop (>5%)'', ''Minor Drop (1-5%)'',
                 ''Stable ('' @ [CHR 0xC2, CHR 0xB1] @ ''1%)'',
                 ''Minor Increase (1-5%)'', ''Major Increase (>5%)'']"

definition cut :: "fval \<Rightarrow> fval list \<Rightarrow> string list \<Rightarrow> string option" where
  "cut x bins labels =
     (let ids = length (filter (\<lambda>b. flt b x) bins) in
      if isna x \<or> ids = length bins \<or> ids = 0 then None
      else Some (labels ! (ids - 1)))"

definition route_sep :: string where
  "route_sep = [CHR '' '', CHR 0xE2, CHR 0x86, CHR 0x92, CHR '' '']"

text \<open>
  The snapshot store is the directory of per-date tables; \<open>load_snapshot\<close> fails with
  \<open>FileNotFoundError\<close> when the table of a date is absent.  The \<open>snapshot_date\<close> column it
  adds is dropped again by the column selection of the merge and is not modelled.
\<close>

datatype error = FileNotFoundError

type_synonym snapshot_store = "string \<rightharpoonup> observation list"

definition load_snapshot :: "snapshot_store \<Rightarrow> string \<Rightarrow> error + observation list" where
  "load_snapshot store date_str =
     (case store date_str of None \<Rightarrow> Inl FileNotFoundError | Some df \<Rightarrow> Inr df)"

text \<open>One row of the merged frame with the derived columns.\<close>

definition delta_row :: "observation \<times> observation \<Rightarrow> delta" where
  "delta_row p =
     (let new = fst p; old = snd p;
          diff = price_eur new - price_eur old;
          pct = fscale (fdiv diff (price_eur old)) 100
      in \<lparr>origin = Some (origin new), destination = Some (destination new),
          depart_date = Some (depart_date new), gate = Some (gate new),
          price_eur_new = Fin (price_eur new), price_eur_old = Fin (price_eur old),
          price_diff = Fin diff, change_pct = pct,
          route = Some (origin new @ route_sep @ destination new),
          change_type = cut pct cut_bins cut_labels\<rparr>)"

definition compare_snapshots :: "snapshot_store \<Rightarrow> string \<Rightarrow> string \<Rightarrow> error + delta list" where
  "compare_snapshots store date1 date2 =
     (case load_snapshot store date1 of
        Inl e \<Rightarrow> Inl e
      | Inr df1 \<Rightarrow>
          (case load_snapshot store date2 of
             Inl e \<Rightarrow> Inl e
           | Inr df2 \<Rightarrow> Inr (map delta_row (merge_inner df2 df1))))"

section \<open>Aggregation\<close>

text \<open>
  \<open>groupby(col)\<close> with the defaults \<open>sort=True\<close> and \<open>dropna=True\<close>: one group per
  distinct present value of the column, the groups in ascending order of that value,
  each group keeping the rows of the frame in their order.  A row whose cell in the
  grouping column is missing belongs to no group.
\<close>

definition group_keys :: "('a \<Rightarrow> string option) \<Rightarrow> 'a list \<Rightarrow> string list" where
  "group_keys col df = sort (remdups (List.map_filter col df))"

definition group_rows :: "('a \<Rightarrow> string option) \<Rightarrow> 'a list \<Rightarrow> string \<Rightarrow> 'a list" where
  "group_rows col df k = filter (\<lambda>d. col d = Some k) df"

text \<open>
  The aggregations skip missing cells.  \<open>count\<close> is the number of cells that are
  present; \<open>mean\<close> of no present cell is NaN; \<open>std\<close> is the sample standard deviation
  (one degree of freedom removed), NaN for fewer than two present cells and NaN as soon
  as an infinite cell takes part; \<open>nunique\<close> counts the distinct present values.
\<close>

definition dropna :: "fval list \<Rightarrow> fval list" where
  "dropna xs = filter (\<lambda>v. \<not> isna v) xs"

definition agg_count :: "fval list \<Rightarrow> nat" where
  "agg_count xs = length (dropna xs)"

definition agg_mean :: "fval list \<Rightarrow> fval" where
  "agg_mean xs =
     (let vs = dropna xs in
      if vs = [] then NaN else fdivc (foldl fadd (Fin 0) vs) (real (length vs)))"

fun finite_cell :: "fval \<Rightarrow> real option" where
  "finite_cell (Fin r) = Some r"
| "finite_cell x = None"

definition agg_std :: "fval list \<Rightarrow> fval" where
  "agg_std xs =
     (let vs = dropna xs in
      if length vs \<le> 1 then NaN
      else if \<exists>v \<in> set vs. finite_cell v = None then NaN
      else let rs = List.map_filter finite_cell vs;
               m = sum_list rs / real (length rs) in
           Fin (sqrt (sum_list (map (\<lambda>x. (x - m)\<^sup>2) rs) / real (length rs - 1))))"

definition agg_fmin :: "fval list \<Rightarrow> fval" where
  "agg_fmin xs =
     (let vs = dropna xs in
      if vs = [] then NaN else foldl (\<lambda>a b. if flt b a then b else a) (hd vs) (tl vs))"

definition agg_fmax :: "fval list \<Rightarrow> fval" where
  "agg_fmax xs =
     (let vs = dropna xs in
      if vs = [] then NaN else foldl (\<lambda>a b. if flt a b then b else a) (hd vs) (tl vs))"

definition agg_nunique :: "string option list \<Rightarrow> nat" where
  "agg_nunique xs = length (remdups (List.map_filter (\<lambda>x. x) xs))"

record summary =
  idx :: string
  total_flights :: nat
  avg_price_diff :: fval
  std_price_diff :: fval
  avg_change_pct :: fval
  min_change_pct :: fval
  max_change_pct :: fval

record ota_summary = summary +
  avg_current_price :: fval
  pricing_strategy :: string

record route_summary = summary +
  num_otas :: nat

text \<open>The strategy lambda, with the comparisons of the source in their order.\<close>

definition strategy :: "fval \<Rightarrow> string" where
  "strategy x =
     (if flt (Fin 5) x then ''Aggressive Increase''
      else if flt (Fin 1) x then ''Moderate Increase''
      else if fle (fabs x) (Fin 1) then ''Stable''
      else if flt (Fin (-5)) x then ''Moderate Decrease''
      else ''Aggressive Decrease'')"

text \<open>
  \<open>sort_values(col, ascending=False)\<close> uses the library's default sorting algorithm,
  which is not a stable one.  The sort is therefore a parameter of the model: a function
  from the key column to the order of the row positions, about which only the contract
  of the library is known: the result is a rearrangement of the positions, descending
  in the key, with missing keys last.
\<close>

definition before_desc :: "fval \<Rightarrow> fval \<Rightarrow> bool" where
  "before_desc a b = (isna b \<or> (\<not> isna a \<and> fle b a))"

definition sort_values_desc :: "(fval list \<Rightarrow> nat list) \<Rightarrow> bool" where
  "sort_values_desc argsort =
     (\<forall>ks. mset (argsort ks) = mset [0..<length ks] \<and>
           sorted_wrt (\<lambda>i j. before_desc (ks ! i) (ks ! j)) (argsort ks))"

definition take_rows :: "'a list \<Rightarrow> nat list \<Rightarrow> 'a list" where
  "take_rows rows indexer = map (\<lambda>i. rows ! i) indexer"

definition ota_row :: "delta list \<Rightarrow> string \<Rightarrow> ota_summary" where
  "ota_row comparison_df k =
     (let g = group_rows gate comparison_df k;
          avg = fround2 (agg_mean (map change_pct g))
      in \<lparr>idx = k,
          total_flights = agg_count (map price_diff g),
          avg_price_diff = fround2 (agg_mean (map price_diff g)),
          std_price_diff = fround2 (agg_std (map price_diff g)),
          avg_change_pct = avg,
          min_change_pct = fround2 (agg_fmin (map change_pct g)),
          max_change_pct = fround2 (agg_fmax (map change_pct g)),
          avg_current_price = fround2 (agg_mean (map price_eur_new g)),
          pricing_strategy = strategy avg\<rparr>)"

definition analyze_ota_changes :: "(fval list \<Rightarrow> nat list) \<Rightarrow> delta list \<Rightarrow> ota_summary list" where
  "analyze_ota_changes argsort comparison_df =
     (let ota_analysis = map (ota_row comparison_df) (group_keys gate comparison_df)
      in take_rows ota_analysis (argsort (map avg_change_pct ota_analysis)))"

definition route_row :: "delta list \<Rightarrow> string \<Rightarrow> route_summary" where
  "route_row comparison_df k =
     (let g = group_rows route comparison_df k
      in \<lparr>idx = k,
          total_flights = agg_count (map price_diff g),
          avg_price_diff = fround2 (agg_mean (map price_diff g)),
          std_price_diff = fround2 (agg_std (map price_diff g)),
          avg_change_pct = fround2 (agg_mean (map change_pct g)),
          min_change_pct = fround2 (agg_fmin (map change_pct g)),
          max_change_pct = fround2 (agg_fmax (map change_pct g)),
          num_otas = agg_nunique (map gate g)\<rparr>)"

definition analyze_route_changes :: "(fval list \<Rightarrow> nat list) \<Rightarrow> delta list \<Rightarrow> route_summary list" where
  "analyze_route_changes argsort comparison_df =
     (let route_analysis = map (route_row comparison_df) (group_keys route comparison_df)
      in take_rows route_analysis (argsort (map avg_change_pct route_analysis)))"

text \<open>
  An instance of the contract, used to run the analyses on the sample frames: the library
  routine \<open>nargsort\<close> for \<open>ascending=False\<close> and \<open>na_position='last'\<close> over a straight
  insertion sort.  The positions of the present keys are taken in reverse, sorted
  ascending by insertion (a position moves in front of the positions with a strictly
  greater key), and reversed again; the positions of the missing keys follow.  This
  instance keeps rows with equal keys in their order.
\<close>

fun insert_asc :: "fval list \<Rightarrow> nat \<Rightarrow> nat list \<Rightarrow> nat list" where
  "insert_asc ks i [] = [i]"
| "insert_asc ks i (j # js) =
     (if flt (ks ! i) (ks ! j) then i # j # js else j # insert_asc ks i js)"

fun argsort_from :: "fval list \<Rightarrow> nat list \<Rightarrow> nat list \<Rightarrow> nat list" where
  "argsort_from ks [] acc = acc"
| "argsort_from ks (i # rest) acc = argsort_from ks rest (insert_asc ks i acc)"

definition nargsort :: "fval list \<Rightarrow> nat list" where
  "nargsort ks =
     (let positions = [0..<length ks];
          non_nan_idx = filter (\<lambda>i. \<not> isna (ks ! i)) positions;
          nan_idx = filter (\<lambda>i. isna (ks ! i)) positions
      in rev (argsort_from ks (rev non_nan_idx) []) @ nan_idx)"

text \<open>A cell holds at most two decimals when its hundredfold is an integer.\<close>

fun two_decimals :: "fval \<Rightarrow> bool" where
  "two_decimals (Fin r) = (r * 100 = of_int \<lfloor>r * 100\<rfloor>)"
| "two_decimals x = True"

section \<open>Sample snapshots\<close>

definition obs :: "string \<Rightarrow> string \<Rightarrow> string \<Rightarrow> string \<Rightarrow> real \<Rightarrow> observation" where
  "obs org dst day ota p =
     \<lparr>origin = org, destination = dst, depart_date = day, gate = ota, price_eur = p\<rparr>"

text \<open>The two scenarios of the specification: a fare going from 80 to 84, and a fare
  that has no counterpart in the later snapshot.\<close>

definition store_scenario :: snapshot_store where
  "store_scenario =
     [''20250617'' \<mapsto> [obs ''BCN'' ''MAD'' ''2025-07-01'' ''AgentX'' 80,
                       obs ''IST'' ''NRT'' ''2025-08-10'' ''AgentY'' 500],
      ''20250618'' \<mapsto> [obs ''BCN'' ''MAD'' ''2025-07-01'' ''AgentX'' 84]]"

text \<open>Repeated keys on both sides, and one key on each side only.\<close>

definition store_dup :: snapshot_store where
  "store_dup =
     [''20250617'' \<mapsto> [obs ''BCN'' ''MAD'' ''2025-07-01'' ''AgentX'' 80,
                       obs ''BCN'' ''MAD'' ''2025-07-01'' ''AgentX'' 90,
                       obs ''BCN'' ''MAD'' ''2025-07-01'' ''AgentX'' 100,
                       obs ''IST'' ''NRT'' ''2025-08-10'' ''AgentY'' 500],
      ''20250618'' \<mapsto> [obs ''BCN'' ''MAD'' ''2025-07-01'' ''AgentX'' 84,
                       obs ''BCN'' ''MAD'' ''2025-07-01'' ''AgentX'' 99,
                       obs ''BCN'' ''LIS'' ''2025-07-01'' ''AgentX'' 60]]"

text \<open>Old prices of zero: one fare that becomes positive, one that stays at zero.\<close>

definition store_zero :: snapshot_store where
  "store_zero =
     [''20250617'' \<mapsto> [obs ''BCN'' ''MAD'' ''2025-07-01'' ''AgentX'' 0,
                       obs ''BCN'' ''MAD'' ''2025-07-01'' ''AgentY'' 0],
      ''20250618'' \<mapsto> [obs ''BCN'' ''MAD'' ''2025-07-01'' ''AgentX'' 50,
                       obs ''BCN'' ''MAD'' ''2025-07-01'' ''AgentY'' 0]]"

text \<open>Two non-empty snapshots without a common key.\<close>

definition store_disjoint :: snapshot_store where
  "store_disjoint =
     [''20250617'' \<mapsto> [obs ''IST'' ''NRT'' ''2025-08-10'' ''AgentY'' 500],
      ''20250618'' \<mapsto> [obs ''BCN'' ''MAD'' ''2025-07-01'' ''AgentX'' 84]]"

text \<open>Comparison frames: one fare falling from 100 to 95; two agents both rising by
  ten percent; one fare rising from 1000 to 1050.04.\<close>

definition bcn_mad :: string where
  "bcn_mad = ''BCN'' @ route_sep @ ''MAD''"

definition frame_minus5 :: "delta list" where
  "frame_minus5 =
     [delta_row (obs ''BCN'' ''MAD'' ''2025-07-01'' ''AgentX'' 95,
                 obs ''BCN'' ''MAD'' ''2025-07-01'' ''AgentX'' 100)]"

definition frame_tie :: "delta list" where
  "frame_tie =
     [delta_row (obs ''BCN'' ''MAD'' ''2025-07-01'' ''A'' 110,
                 obs ''BCN'' ''MAD'' ''2025-07-01'' ''A'' 100),
      delta_row (obs ''IST'' ''NRT'' ''2025-07-01'' ''B'' 220,
                 obs ''IST'' ''NRT'' ''2025-07-01'' ''B'' 200)]"

definition frame_5004 :: "delta list" where
  "frame_5004 =
     [delta_row (obs ''BCN'' ''MAD'' ''2025-07-01'' ''AgentX'' (105004 / 100),
                 obs ''BCN'' ''MAD'' ''2025-07-01'' ''AgentX'' 1000)]"

text \<open>Comparison frames with an empty cell: a row without a gate, and a row whose old
  price, and with it the price difference and the percentage change, is missing.\<close>

definition frame_no_gate :: "delta list" where
  "frame_no_gate =
     [\<lparr>origin = Some ''BCN'', destination = Some ''MAD'', depart_date = Some ''2025-07-01'',
       gate = None, price_eur_new = Fin 84, price_eur_old = Fin 80, price_diff = Fin 4,
       change_pct = Fin 5, route = Some bcn_mad,
       change_type = Some ''Minor Increase (1-5%)''\<rparr>]"

definition frame_no_price :: "delta list" where
  "frame_no_price =
     [\<lparr>origin = Some ''BCN'', destination = Some ''MAD'', depart_date = Some ''2025-07-01'',
       gate = Some ''AgentX'', price_eur_new = Fin 84, price_eur_old = NaN, price_diff = NaN,
       change_pct = NaN, route = Some bcn_mad, change_type = None\<rparr>]"

section \<open>Auxiliary facts\<close>

subsection \<open>Classification\<close>

lemma cut_Fin:
  "cut (Fin r) cut_bins cut_labels =
     Some (if r \<le> -5 then ''Major Drop (>5%)''
           else if r \<le> -1 then ''Minor Drop (1-5%)''
           else if r \<le> 1 then ''Stable ('' @ [CHR 0xC2, CHR 0xB1] @ ''1%)''
           else if r \<le> 5 then ''Minor Increase (1-5%)''
           else ''Major Increase (>5%)'')"
  by (simp add: cut_def cut_bins_def cut_labels_def)

lemma cut_special:
  "cut NaN cut_bins cut_labels = None"
  "cut NInf cut_bins cut_labels = None"
  "cut PInf cut_bins cut_labels = Some ''Major Increase (>5%)''"
  by (simp_all add: cut_def cut_bins_def cut_labels_def)

subsection \<open>The comparison frame\<close>

lemma compare_snapshots_Inr:
  "compare_snapshots store date1 date2 = Inr ds \<longleftrightarrow>
     (\<exists>df1 df2. store date1 = Some df1 \<and> store date2 = Some df2 \<and>
        ds = map delta_row (merge_inner df2 df1))"
  by (auto simp: compare_snapshots_def load_snapshot_def split: option.splits)

lemma compare_snapshots_loaded:
  "store date1 = Some df1 \<Longrightarrow> store date2 = Some df2 \<Longrightarrow>
   compare_snapshots store date1 date2 = Inr (map delta_row (merge_inner df2 df1))"
  by (simp add: compare_snapshots_def load_snapshot_def)

lemma delta_row_simps:
  "price_diff (delta_row p) = Fin (price_eur (fst p) - price_eur (snd p))"
  "price_eur_new (delta_row p) = Fin (price_eur (fst p))"
  "price_eur_old (delta_row p) = Fin (price_eur (snd p))"
  "change_pct (delta_row p) =
     fscale (fdiv (price_eur (fst p) - price_eur (snd p)) (price_eur (snd p))) 100"
  "change_type (delta_row p) = cut (change_pct (delta_row p)) cut_bins cut_labels"
  "gate (delta_row p) = Some (gate (fst p))"
  "origin (delta_row p) = Some (origin (fst p))"
  "destination (delta_row p) = Some (destination (fst p))"
  "depart_date (delta_row p) = Some (depart_date (fst p))"
  "route (delta_row p) = Some (origin (fst p) @ route_sep @ destination (fst p))"
  by (simp_all add: delta_row_def Let_def)

subsection \<open>The sort contract\<close>

lemma flt_trans: "flt a b \<Longrightarrow> flt b c \<Longrightarrow> flt a c"
  by (cases a; cases b; cases c) auto

lemma flt_asym: "flt a b \<Longrightarrow> \<not> flt b a"
  by (cases a; cases b) auto

lemma not_flt_fle: "\<not> isna a \<Longrightarrow> \<not> isna b \<Longrightarrow> \<not> flt b a \<Longrightarrow> fle a b"
  by (cases a; cases b) auto

lemma set_insert_asc: "set (insert_asc ks i js) = insert i (set js)"
  by (induction js) auto

lemma mset_insert_asc: "mset (insert_asc ks i js) = add_mset i (mset js)"
  by (induction js) auto

lemma sorted_insert_asc:
  "sorted_wrt (\<lambda>i j. \<not> flt (ks ! j) (ks ! i)) js \<Longrightarrow>
   sorted_wrt (\<lambda>i j. \<not> flt (ks ! j) (ks ! i)) (insert_asc ks i js)"
proof (induction js)
  case Nil
  then show ?case by simp
next
  case (Cons j js)
  show ?case
  proof (cases "flt (ks ! i) (ks ! j)")
    case True
    have "\<not> flt (ks ! x) (ks ! i)" if "x \<in> set (j # js)" for x
    proof
      assume less: "flt (ks ! x) (ks ! i)"
      have "flt (ks ! x) (ks ! j)" by (rule flt_trans [OF less True])
      with Cons.prems that True less show False
        by (auto dest: flt_asym)
    qed
    with True Cons.prems show ?thesis by simp
  next
    case False
    with Cons show ?thesis
      by (auto simp: set_insert_asc)
  qed
qed

lemma mset_argsort_from: "mset (argsort_from ks ixs acc) = mset ixs + mset acc"
  by (induction ixs arbitrary: acc) (auto simp: mset_insert_asc)

lemma sorted_argsort_from:
  "sorted_wrt (\<lambda>i j. \<not> flt (ks ! j) (ks ! i)) acc \<Longrightarrow>
   sorted_wrt (\<lambda>i j. \<not> flt (ks ! j) (ks ! i)) (argsort_from ks ixs acc)"
  by (induction ixs arbitrary: acc) (auto simp: sorted_insert_asc)

lemma mset_filter_split: "mset (filter P xs) + mset (filter (\<lambda>x. \<not> P x) xs) = mset xs"
  by (induction xs) auto

lemma mset_nargsort_aux:
  "mset (rev (argsort_from ks (rev (filter P xs)) []) @ filter (\<lambda>x. \<not> P x) xs) = mset xs"
  using mset_filter_split [of P xs] by (simp add: mset_argsort_from)

lemma mset_nargsort: "mset (nargsort ks) = mset [0..<length ks]"
  unfolding nargsort_def Let_def
  using mset_nargsort_aux [of ks "\<lambda>i. \<not> isna (ks ! i)" "[0..<length ks]"]
  by (simp only: not_not)

lemma sorted_nargsort:
  "sorted_wrt (\<lambda>i j. before_desc (ks ! i) (ks ! j)) (nargsort ks)"
proof -
  let ?present = "filter (\<lambda>i. \<not> isna (ks ! i)) [0..<length ks]"
  let ?asc = "argsort_from ks (rev ?present) []"
  have asc: "sorted_wrt (\<lambda>i j. \<not> flt (ks ! j) (ks ! i)) ?asc"
    by (rule sorted_argsort_from) simp
  have "set_mset (mset ?asc) = set_mset (mset (rev ?present))"
    by (simp only: mset_argsort_from) simp
  then have present: "\<not> isna (ks ! i)" if "i \<in> set ?asc" for i
    using that by auto
  have "sorted_wrt (\<lambda>i j. before_desc (ks ! j) (ks ! i)) ?asc"
    by (rule sorted_wrt_mono_rel [OF _ asc])
       (auto simp: before_desc_def dest: present intro: not_flt_fle)
  then have "sorted_wrt (\<lambda>i j. before_desc (ks ! i) (ks ! j)) (rev ?asc)"
    by (simp add: sorted_wrt_rev)
  moreover have "sorted_wrt (\<lambda>i j. before_desc (ks ! i) (ks ! j))
                   (filter (\<lambda>i. isna (ks ! i)) [0..<length ks])"
    by (rule sorted_wrt_mono_rel [of _ "\<lambda>i j. True"])
       (auto simp: before_desc_def)
  ultimately show ?thesis
    by (auto simp: nargsort_def Let_def sorted_wrt_append before_desc_def)
qed

lemma nargsort_contract: "sort_values_desc nargsort"
  by (simp add: sort_values_desc_def mset_nargsort sorted_nargsort)

lemma contract_set:
  assumes "sort_values_desc argsort"
  shows "set (argsort ks) = {0..<length ks}"
proof -
  from assms have "mset (argsort ks) = mset [0..<length ks]"
    by (simp add: sort_values_desc_def)
  then have "set_mset (mset (argsort ks)) = set_mset (mset [0..<length ks])" by simp
  then show ?thesis by simp
qed

lemma take_rows_mset:
  assumes "sort_values_desc argsort"
  shows "mset (take_rows rows (argsort (map f rows))) = mset rows"
proof -
  have "mset (take_rows rows (argsort (map f rows)))
        = image_mset (\<lambda>i. rows ! i) (mset (argsort (map f rows)))"
    by (simp add: take_rows_def)
  also have "\<dots> = image_mset (\<lambda>i. rows ! i) (mset [0..<length rows])"
    using assms by (simp add: sort_values_desc_def)
  also have "\<dots> = mset (map (\<lambda>i. rows ! i) [0..<length rows])" by simp
  also have "\<dots> = mset rows" by (simp add: map_nth)
  finally show ?thesis .
qed

lemma take_rows_set:
  assumes "sort_values_desc argsort"
  shows "set (take_rows rows (argsort (map f rows))) = set rows"
  using take_rows_mset [OF assms, of rows f] by (metis set_mset_mset)

subsection \<open>The inner join\<close>

lemma merge_inner_product:
  "merge_inner left right =
     filter (\<lambda>p. merge_cols (snd p) = merge_cols (fst p)) (List.product left right)"
  by (induction left) (simp_all add: merge_inner_def filter_map comp_def)

lemma merge_cols_delta_row: "merge_cols (delta_row p) = present_key (merge_cols (fst p))"
  by (simp add: merge_cols_def present_key_def delta_row_simps)

lemma present_key_eq: "present_key k = present_key k' \<longleftrightarrow> k = k'"
  by (auto simp: present_key_def split: prod.splits)

lemma merge_inner_key_count:
  "length (filter (\<lambda>d. merge_cols d = present_key k) (map delta_row (merge_inner left right))) =
     length (filter (\<lambda>r. merge_cols r = k) left) * length (filter (\<lambda>r. merge_cols r = k) right)"
proof (induction left)
  case Nil
  then show ?case by (simp add: merge_inner_def)
next
  case (Cons l left)
  have step: "merge_inner (l # left) right =
      map (\<lambda>r. (l, r)) (filter (\<lambda>r. merge_cols r = merge_cols l) right) @ merge_inner left right"
    by (simp add: merge_inner_def)
  have here: "length (filter (\<lambda>d. merge_cols d = present_key k)
        (map delta_row (map (\<lambda>r. (l, r)) (filter (\<lambda>r. merge_cols r = merge_cols l) right)))) =
      (if merge_cols l = k then length (filter (\<lambda>r. merge_cols r = k) right) else 0)"
    by (simp add: filter_map comp_def merge_cols_delta_row present_key_eq)
  show ?case
    unfolding step map_append filter_append length_append here
    using Cons.IH by simp
qed

lemma store_dup_eval:
  "store_dup ''20250617'' = Some [obs ''BCN'' ''MAD'' ''2025-07-01'' ''AgentX'' 80,
                       obs ''BCN'' ''MAD'' ''2025-07-01'' ''AgentX'' 90,
                       obs ''BCN'' ''MAD'' ''2025-07-01'' ''AgentX'' 100,
                       obs ''IST'' ''NRT'' ''2025-08-10'' ''AgentY'' 500]"
  "store_dup ''20250618'' = Some [obs ''BCN'' ''MAD'' ''2025-07-01'' ''AgentX'' 84,
                       obs ''BCN'' ''MAD'' ''2025-07-01'' ''AgentX'' 99,
                       obs ''BCN'' ''LIS'' ''2025-07-01'' ''AgentX'' 60]"
  by (simp_all add: store_dup_def)

lemma store_scenario_eval:
  "compare_snapshots store_scenario ''20250617'' ''20250618'' =
     Inr [delta_row (obs ''BCN'' ''MAD'' ''2025-07-01'' ''AgentX'' 84,
                     obs ''BCN'' ''MAD'' ''2025-07-01'' ''AgentX'' 80)]"
  by (simp add: compare_snapshots_def load_snapshot_def store_scenario_def merge_inner_def
      merge_cols_def obs_def)

section \<open>The comparison engine\<close>

text \<open>
  Claim C1.  For two loaded snapshots, \<open>compare_snapshots\<close> returns one row for every
  pair of a row of the newer and a row of the older table that agree on origin,
  destination, departure date and gate, and for no other pair: the result is the image
  of the filtered Cartesian product.  Hence a key occurring m times in the newer and n
  times in the older table occurs m * n times in the result, and a key missing on one
  side does not occur at all.
\<close>

theorem compare_snapshots_inner_join:
  assumes "store date1 = Some older" and "store date2 = Some newer"
  shows "\<exists>ds. compare_snapshots store date1 date2 = Inr ds \<and>
           ds = map delta_row
                  (filter (\<lambda>p. merge_cols (snd p) = merge_cols (fst p)) (List.product newer older)) \<and>
           (\<forall>k. length (filter (\<lambda>d. merge_cols d = present_key k) ds) =
                  length (filter (\<lambda>r. merge_cols r = k) newer) *
                  length (filter (\<lambda>r. merge_cols r = k) older))"
proof (intro exI conjI allI)
  show "compare_snapshots store date1 date2 = Inr (map delta_row (merge_inner newer older))"
    using assms by (simp add: compare_snapshots_loaded)
  show "map delta_row (merge_inner newer older) =
        map delta_row (filter (\<lambda>p. merge_cols (snd p) = merge_cols (fst p)) (List.product newer older))"
    by (simp add: merge_inner_product)
  show "length (filter (\<lambda>d. merge_cols d = present_key k) (map delta_row (merge_inner newer older))) =
        length (filter (\<lambda>r. merge_cols r = k) newer) * length (filter (\<lambda>r. merge_cols r = k) older)" for k
    by (rule merge_inner_key_count)
qed

theorem compare_snapshots_inner_join_witness:
  "\<exists>ds. compare_snapshots store_dup ''20250617'' ''20250618'' = Inr ds \<and>
      length (filter (\<lambda>d. merge_cols d =
         (Some ''BCN'', Some ''MAD'', Some ''2025-07-01'', Some ''AgentX'')) ds) = 6 \<and>
      length (filter (\<lambda>d. merge_cols d =
         (Some ''IST'', Some ''NRT'', Some ''2025-08-10'', Some ''AgentY'')) ds) = 0 \<and>
      length (filter (\<lambda>d. merge_cols d =
         (Some ''BCN'', Some ''LIS'', Some ''2025-07-01'', Some ''AgentX'')) ds) = 0"
proof -
  from compare_snapshots_inner_join
         [of store_dup "''20250617''" _ "''20250618''", OF store_dup_eval]
  obtain ds where run: "compare_snapshots store_dup ''20250617'' ''20250618'' = Inr ds"
    and cnt: "\<And>k. length (filter (\<lambda>d. merge_cols d = present_key k) ds) =
        length (filter (\<lambda>r. merge_cols r = k)
                 [obs ''BCN'' ''MAD'' ''2025-07-01'' ''AgentX'' 84,
                  obs ''BCN'' ''MAD'' ''2025-07-01'' ''AgentX'' 99,
                  obs ''BCN'' ''LIS'' ''2025-07-01'' ''AgentX'' 60]) *
        length (filter (\<lambda>r. merge_cols r = k)
                 [obs ''BCN'' ''MAD'' ''2025-07-01'' ''AgentX'' 80,
                  obs ''BCN'' ''MAD'' ''2025-07-01'' ''AgentX'' 90,
                  obs ''BCN'' ''MAD'' ''2025-07-01'' ''AgentX'' 100,
                  obs ''IST'' ''NRT'' ''2025-08-10'' ''AgentY'' 500])"
    by blast
  have k1: "length (filter (\<lambda>d. merge_cols d =
         (Some ''BCN'', Some ''MAD'', Some ''2025-07-01'', Some ''AgentX'')) ds) = 6"
    using cnt [of "(''BCN'', ''MAD'', ''2025-07-01'', ''AgentX'')"]
    by (simp add: obs_def merge_cols_def present_key_def)
  have k2: "length (filter (\<lambda>d. merge_cols d =
         (Some ''IST'', Some ''NRT'', Some ''2025-08-10'', Some ''AgentY'')) ds) = 0"
    using cnt [of "(''IST'', ''NRT'', ''2025-08-10'', ''AgentY'')"]
    by (simp add: obs_def merge_cols_def present_key_def)
  have k3: "length (filter (\<lambda>d. merge_cols d =
         (Some ''BCN'', Some ''LIS'', Some ''2025-07-01'', Some ''AgentX'')) ds) = 0"
    using cnt [of "(''BCN'', ''LIS'', ''2025-07-01'', ''AgentX'')"]
    by (simp add: obs_def merge_cols_def present_key_def)
  from run k1 k2 k3 show ?thesis by blast
qed

text \<open>
  Claim C4.  In every row of the comparison frame the price difference is the new price
  minus the old price, and where the old price is not zero the percentage change is the
  difference divided by the old price, times 100.
\<close>

theorem price_diff_and_change_pct:
  assumes "compare_snapshots store date1 date2 = Inr ds" and "d \<in> set ds"
  shows "\<exists>new old. price_eur_new d = Fin new \<and> price_eur_old d = Fin old \<and>
           price_diff d = Fin (new - old) \<and>
           (old \<noteq> 0 \<longrightarrow> change_pct d = Fin ((new - old) / old * 100))"
proof -
  from assms obtain p where "d = delta_row p"
    by (auto simp: compare_snapshots_Inr)
  then show ?thesis
    by (simp add: delta_row_simps fdiv_def)
qed

theorem price_diff_and_change_pct_witness:
  "price_diff (delta_row (obs ''BCN'' ''MAD'' ''2025-07-01'' ''AgentX'' 84,
                     obs ''BCN'' ''MAD'' ''2025-07-01'' ''AgentX'' 80)) = Fin 4 \<and>
   change_pct (delta_row (obs ''BCN'' ''MAD'' ''2025-07-01'' ''AgentX'' 84,
                     obs ''BCN'' ''MAD'' ''2025-07-01'' ''AgentX'' 80)) = Fin 5"
  using price_diff_and_change_pct [OF store_scenario_eval, of "delta_row (obs ''BCN'' ''MAD'' ''2025-07-01'' ''AgentX'' 84,
                     obs ''BCN'' ''MAD'' ''2025-07-01'' ''AgentX'' 80)"]
  by (auto simp: delta_row_simps obs_def)

text \<open>
  Claim C2.  A row whose percentage change is a finite number r gets exactly one of the
  five categories, the cut points belonging to the lower category: Major Drop iff
  r \<le> -5, Minor Drop iff -5 < r \<le> -1, Stable iff -1 < r \<le> 1, Minor Increase iff
  1 < r \<le> 5, Major Increase iff 5 < r.  The category is a function of r alone, and the
  value 5 falls into Minor Increase.
\<close>

theorem change_type_buckets:
  assumes "compare_snapshots store date1 date2 = Inr ds" and "d \<in> set ds"
    and "change_pct d = Fin r"
  shows "(change_type d = Some ''Major Drop (>5%)'' \<longleftrightarrow> r \<le> -5) \<and>
         (change_type d = Some ''Minor Drop (1-5%)'' \<longleftrightarrow> -5 < r \<and> r \<le> -1) \<and>
         (change_type d = Some (''Stable ('' @ [CHR 0xC2, CHR 0xB1] @ ''1%)'') \<longleftrightarrow> -1 < r \<and> r \<le> 1) \<and>
         (change_type d = Some ''Minor Increase (1-5%)'' \<longleftrightarrow> 1 < r \<and> r \<le> 5) \<and>
         (change_type d = Some ''Major Increase (>5%)'' \<longleftrightarrow> 5 < r) \<and>
         change_type d = cut (Fin r) cut_bins cut_labels \<and>
         cut (Fin 5) cut_bins cut_labels = Some ''Minor Increase (1-5%)''"
proof -
  from assms(1,2) obtain p where "d = delta_row p"
    by (auto simp: compare_snapshots_Inr)
  with assms(3) have ct: "change_type d = cut (Fin r) cut_bins cut_labels"
    by (simp add: delta_row_simps(5))
  show ?thesis unfolding ct cut_Fin by simp
qed

theorem change_type_buckets_witness:
  "change_pct (delta_row (obs ''BCN'' ''MAD'' ''2025-07-01'' ''AgentX'' 84,
                     obs ''BCN'' ''MAD'' ''2025-07-01'' ''AgentX'' 80)) = Fin 5 \<and>
   change_type (delta_row (obs ''BCN'' ''MAD'' ''2025-07-01'' ''AgentX'' 84,
                     obs ''BCN'' ''MAD'' ''2025-07-01'' ''AgentX'' 80)) = Some ''Minor Increase (1-5%)''"
proof -
  let ?d = "delta_row (obs ''BCN'' ''MAD'' ''2025-07-01'' ''AgentX'' 84,
                     obs ''BCN'' ''MAD'' ''2025-07-01'' ''AgentX'' 80)"
  have pct: "change_pct ?d = Fin 5"
    by (simp add: delta_row_simps obs_def fdiv_def)
  have mem: "?d \<in> set [?d]" by simp
  from change_type_buckets [OF store_scenario_eval mem pct] pct
  show ?thesis by simp
qed

subsection \<open>Groups and summary rows\<close>

lemma set_group_keys: "set (group_keys col df) = {k. \<exists>d \<in> set df. col d = Some k}"
  by (force simp: group_keys_def List.map_filter_def image_iff)

lemma distinct_group_keys: "distinct (group_keys col df)"
  by (simp add: group_keys_def)

lemma analyze_ota_changes_set:
  assumes "sort_values_desc argsort"
  shows "set (analyze_ota_changes argsort df) = ota_row df ` set (group_keys gate df)"
  unfolding analyze_ota_changes_def Let_def take_rows_set [OF assms]
  by simp

lemma analyze_route_changes_set:
  assumes "sort_values_desc argsort"
  shows "set (analyze_route_changes argsort df) = route_row df ` set (group_keys route df)"
  unfolding analyze_route_changes_def Let_def take_rows_set [OF assms]
  by simp

lemma ota_row_simps:
  "idx (ota_row df k) = k"
  "total_flights (ota_row df k) = agg_count (map price_diff (group_rows gate df k))"
  "avg_price_diff (ota_row df k) = fround2 (agg_mean (map price_diff (group_rows gate df k)))"
  "std_price_diff (ota_row df k) = fround2 (agg_std (map price_diff (group_rows gate df k)))"
  "avg_change_pct (ota_row df k) = fround2 (agg_mean (map change_pct (group_rows gate df k)))"
  "min_change_pct (ota_row df k) = fround2 (agg_fmin (map change_pct (group_rows gate df k)))"
  "max_change_pct (ota_row df k) = fround2 (agg_fmax (map change_pct (group_rows gate df k)))"
  "avg_current_price (ota_row df k) = fround2 (agg_mean (map price_eur_new (group_rows gate df k)))"
  "pricing_strategy (ota_row df k) = strategy (avg_change_pct (ota_row df k))"
  by (simp_all add: ota_row_def Let_def)

lemma route_row_simps:
  "idx (route_row df k) = k"
  "total_flights (route_row df k) = agg_count (map price_diff (group_rows route df k))"
  "avg_price_diff (route_row df k) = fround2 (agg_mean (map price_diff (group_rows route df k)))"
  "std_price_diff (route_row df k) = fround2 (agg_std (map price_diff (group_rows route df k)))"
  "avg_change_pct (route_row df k) = fround2 (agg_mean (map change_pct (group_rows route df k)))"
  "min_change_pct (route_row df k) = fround2 (agg_fmin (map change_pct (group_rows route df k)))"
  "max_change_pct (route_row df k) = fround2 (agg_fmax (map change_pct (group_rows route df k)))"
  "num_otas (route_row df k) = agg_nunique (map gate (group_rows route df k))"
  by (simp_all add: route_row_def Let_def)

lemma strategy_Fin:
  "strategy (Fin x) =
     (if 5 < x then ''Aggressive Increase''
      else if 1 < x then ''Moderate Increase''
      else if \<bar>x\<bar> \<le> 1 then ''Stable''
      else if -5 < x then ''Moderate Decrease''
      else ''Aggressive Decrease'')"
  by (auto simp: strategy_def)

lemma agg_count_group:
  "agg_count (map price_diff (group_rows col df k)) =
     length (filter (\<lambda>d. col d = Some k) (filter (\<lambda>d. \<not> isna (price_diff d)) df))"
  by (induction df) (auto simp: agg_count_def dropna_def group_rows_def)




lemma group_sizes_sum:
  "distinct ks \<Longrightarrow>
   sum_list (map (\<lambda>k. length (filter (\<lambda>d. col d = Some k) df)) ks) =
     length (filter (\<lambda>d. col d \<in> Some ` set ks) df)"
proof (induction ks)
  case Nil
  then show ?case by simp
next
  case (Cons k ks)
  have split: "length (filter (\<lambda>d. col d = Some k \<or> col d \<in> Some ` set ks) df) =
      length (filter (\<lambda>d. col d = Some k) df) + length (filter (\<lambda>d. col d \<in> Some ` set ks) df)"
    using Cons.prems by (induction df) auto
  from Cons show ?case by (simp add: split)
qed

lemma group_counts_total:
  "sum_list (map (\<lambda>k. agg_count (map price_diff (group_rows col df k))) (group_keys col df)) =
     length (filter (\<lambda>d. col d \<noteq> None \<and> \<not> isna (price_diff d)) df)"
proof -
  let ?present = "filter (\<lambda>d. \<not> isna (price_diff d)) df"
  have "sum_list (map (\<lambda>k. agg_count (map price_diff (group_rows col df k))) (group_keys col df)) =
        length (filter (\<lambda>d. col d \<in> Some ` set (group_keys col df)) ?present)"
    unfolding agg_count_group by (rule group_sizes_sum) (rule distinct_group_keys)
  also have "\<dots> = length (filter (\<lambda>d. col d \<noteq> None) ?present)"
    by (rule arg_cong [where f = length], rule filter_cong)
       (auto simp: set_group_keys image_iff)
  also have "\<dots> = length (filter (\<lambda>d. col d \<noteq> None \<and> \<not> isna (price_diff d)) df)"
    by (simp add: conj_commute)
  finally show ?thesis .
qed

lemma sum_list_take_rows:
  assumes "sort_values_desc argsort"
  shows "sum_list (map g (take_rows rows (argsort (map f rows)))) = sum_list (map (g :: 'a \<Rightarrow> nat) rows)"
proof -
  have "mset (map g (take_rows rows (argsort (map f rows)))) = mset (map g rows)"
    using take_rows_mset [OF assms, of rows f] by (metis mset_map)
  then show ?thesis by (metis sum_mset_sum_list)
qed

lemma take_rows_single:
  assumes "sort_values_desc argsort"
  shows "take_rows [r] (argsort [k]) = [r]"
proof -
  have "mset (argsort [k]) = mset [0]"
    using assms by (simp add: sort_values_desc_def)
  then have "argsort [k] = [0]"
    by (metis mset_single_iff_right)
  then show ?thesis by (simp add: take_rows_def)
qed

subsection \<open>The sample frames\<close>

lemma rint_of_int: "rint (of_int n) = n"
  by (simp add: rint_def)

lemma nargsort_Nil: "nargsort [] = []"
  by (simp add: nargsort_def)

lemma keys_minus5:
  "group_keys gate frame_minus5 = [''AgentX'']"
  "group_keys route frame_minus5 = [bcn_mad]"
  by (simp_all add: group_keys_def frame_minus5_def delta_row_simps obs_def bcn_mad_def)

lemma analyze_ota_minus5:
  "analyze_ota_changes nargsort frame_minus5 = [ota_row frame_minus5 ''AgentX'']"
  unfolding analyze_ota_changes_def Let_def keys_minus5
  by (simp add: take_rows_single [OF nargsort_contract])


lemma group_minus5:
  "group_rows gate frame_minus5 ''AgentX'' = frame_minus5"
  "group_rows route frame_minus5 bcn_mad = frame_minus5"
  by (simp_all add: group_rows_def frame_minus5_def delta_row_simps obs_def bcn_mad_def)

lemma change_pct_minus5: "map change_pct frame_minus5 = [Fin (-5)]"
  by (simp add: frame_minus5_def delta_row_simps obs_def fdiv_def)


lemma avg_minus5: "avg_change_pct (ota_row frame_minus5 ''AgentX'') = Fin (-5)"
  using rint_of_int [of "-500"]
  by (simp add: ota_row_simps group_minus5 change_pct_minus5 agg_mean_def dropna_def round2_def)

lemma frame_tie_present:
  "\<forall>d \<in> set frame_tie. gate d \<noteq> None \<and> route d \<noteq> None \<and> \<not> isna (price_diff d)"
  by (simp add: frame_tie_def delta_row_simps)

lemma keys_tie: "group_keys gate frame_tie = [''A'', ''B'']"
  by (simp add: group_keys_def frame_tie_def delta_row_simps obs_def)

lemma avg_tie:
  "map avg_change_pct (map (ota_row frame_tie) [''A'', ''B'']) = [Fin 10, Fin 10]"
  using rint_of_int [of 1000]
  by (simp add: ota_row_simps group_rows_def frame_tie_def delta_row_simps obs_def fdiv_def
      agg_mean_def dropna_def round2_def)

lemma nargsort_tie: "nargsort [Fin 10, Fin 10] = [0, 1]"
  by (simp add: nargsort_def upt_rec [of 0] upt_rec [of 1] upt_rec [of 2])

lemma analyze_ota_tie: "map idx (analyze_ota_changes nargsort frame_tie) = [''A'', ''B'']"
  unfolding analyze_ota_changes_def Let_def keys_tie avg_tie nargsort_tie
  by (simp add: take_rows_def ota_row_simps(1))

lemma keys_no_gate: "group_keys gate frame_no_gate = []"
  by (simp add: group_keys_def frame_no_gate_def)

lemma keys_no_price:
  "group_keys gate frame_no_price = [''AgentX'']"
  "group_keys route frame_no_price = [bcn_mad]"
  by (simp_all add: group_keys_def frame_no_price_def)

lemma count_no_price:
  "agg_count (map price_diff (group_rows gate frame_no_price ''AgentX'')) = 0"
  "agg_count (map price_diff (group_rows route frame_no_price bcn_mad)) = 0"
  by (simp_all add: agg_count_def dropna_def group_rows_def frame_no_price_def)

section \<open>The aggregation engine\<close>

text \<open>
  Claim C9, as stated, fails on a comparison frame with an empty cell.  A row without a
  gate belongs to no agent group, so the agent summary of a frame of one such row is
  empty and its flight counts add up to 0; and a row without a price difference is not
  counted, so its group reports a flight count of 0.
\<close>

theorem missing_cells_counterexample:
  "length frame_no_gate = 1 \<and>
   analyze_ota_changes nargsort frame_no_gate = [] \<and>
   sum_list (map total_flights (analyze_ota_changes nargsort frame_no_gate)) = 0 \<and>
   length frame_no_price = 1 \<and>
   map (\<lambda>r. (idx r, total_flights r)) (analyze_ota_changes nargsort frame_no_price) =
     [(''AgentX'', 0)] \<and>
   map (\<lambda>r. (idx r, total_flights r)) (analyze_route_changes nargsort frame_no_price) =
     [(bcn_mad, 0)]"
proof -
  have a: "analyze_ota_changes nargsort frame_no_gate = []"
    unfolding analyze_ota_changes_def Let_def keys_no_gate
    by (simp add: nargsort_Nil take_rows_def)
  have b: "analyze_ota_changes nargsort frame_no_price = [ota_row frame_no_price ''AgentX'']"
    unfolding analyze_ota_changes_def Let_def keys_no_price
    by (simp add: take_rows_single [OF nargsort_contract])
  have c: "analyze_route_changes nargsort frame_no_price = [route_row frame_no_price bcn_mad]"
    unfolding analyze_route_changes_def Let_def keys_no_price
    by (simp add: take_rows_single [OF nargsort_contract])
  have l: "length frame_no_gate = 1" "length frame_no_price = 1"
    by (simp_all add: frame_no_gate_def frame_no_price_def)
  show ?thesis
    unfolding a b c
    by (simp add: l ota_row_simps(1,2) route_row_simps(1,2) count_no_price)
qed

text \<open>
  Claim C9, amended.  For every comparison frame and every sort that meets the library
  contract, the flight counts of the agent summary add up to the number of rows whose
  gate and price difference are present, and the flight counts of the route summary to
  the number of rows whose route and price difference are present.  For a frame in
  which no gate, route or price difference is missing, both sums are the number of rows
  of the frame.
\<close>

theorem group_counts_sum_to_length:
  assumes "sort_values_desc argsort"
  shows "sum_list (map total_flights (analyze_ota_changes argsort df)) =
           length (filter (\<lambda>d. gate d \<noteq> None \<and> \<not> isna (price_diff d)) df) \<and>
         sum_list (map total_flights (analyze_route_changes argsort df)) =
           length (filter (\<lambda>d. route d \<noteq> None \<and> \<not> isna (price_diff d)) df) \<and>
         ((\<forall>d \<in> set df. gate d \<noteq> None \<and> route d \<noteq> None \<and> \<not> isna (price_diff d)) \<longrightarrow>
            sum_list (map total_flights (analyze_ota_changes argsort df)) = length df \<and>
            sum_list (map total_flights (analyze_route_changes argsort df)) = length df)"
proof -
  have "sum_list (map total_flights (analyze_ota_changes argsort df)) =
        sum_list (map total_flights (map (ota_row df) (group_keys gate df)))"
    unfolding analyze_ota_changes_def Let_def sum_list_take_rows [OF assms] ..
  also have "\<dots> = length (filter (\<lambda>d. gate d \<noteq> None \<and> \<not> isna (price_diff d)) df)"
    using group_counts_total [of gate df] by (simp add: comp_def ota_row_simps)
  finally have ota: "sum_list (map total_flights (analyze_ota_changes argsort df)) =
      length (filter (\<lambda>d. gate d \<noteq> None \<and> \<not> isna (price_diff d)) df)" .
  have "sum_list (map total_flights (analyze_route_changes argsort df)) =
        sum_list (map total_flights (map (route_row df) (group_keys route df)))"
    unfolding analyze_route_changes_def Let_def sum_list_take_rows [OF assms] ..
  also have "\<dots> = length (filter (\<lambda>d. route d \<noteq> None \<and> \<not> isna (price_diff d)) df)"
    using group_counts_total [of route df] by (simp add: comp_def route_row_simps)
  finally have rt: "sum_list (map total_flights (analyze_route_changes argsort df)) =
      length (filter (\<lambda>d. route d \<noteq> None \<and> \<not> isna (price_diff d)) df)" .
  have "length (filter (\<lambda>d. gate d \<noteq> None \<and> \<not> isna (price_diff d)) df) = length df \<and>
        length (filter (\<lambda>d. route d \<noteq> None \<and> \<not> isna (price_diff d)) df) = length df"
    if "\<forall>d \<in> set df. gate d \<noteq> None \<and> route d \<noteq> None \<and> \<not> isna (price_diff d)"
    using that by (simp add: filter_id_conv)
  with ota rt show ?thesis by simp
qed

theorem group_counts_sum_to_length_witness:
  "sum_list (map total_flights (analyze_ota_changes nargsort frame_tie)) = 2 \<and>
   sum_list (map total_flights (analyze_route_changes nargsort frame_tie)) = 2"
proof -
  have len: "length frame_tie = 2" by (simp add: frame_tie_def)
  from group_counts_sum_to_length [OF nargsort_contract, of frame_tie] frame_tie_present len
  show ?thesis by simp
qed

text \<open>
  Claim C3, as stated, fails: a group whose mean percentage change is exactly -5 is
  labelled Aggressive Decrease, not Moderate Decrease, because the last comparison of
  the strategy expression is the strict \<open>x > -5\<close>.
\<close>

theorem strategy_at_minus5_counterexample:
  "agg_mean (map change_pct frame_minus5) = Fin (-5) \<and>
   map (\<lambda>r. (idx r, avg_change_pct r, pricing_strategy r))
       (analyze_ota_changes nargsort frame_minus5) =
     [(''AgentX'', Fin (-5), ''Aggressive Decrease'')]"
  by (simp add: analyze_ota_minus5 ota_row_simps(1,9) avg_minus5 strategy_Fin
      change_pct_minus5 agg_mean_def dropna_def)

text \<open>
  Claim C3, amended.  In every row of the agent summary the strategy label is a function
  of the \<open>avg_change_pct\<close> cell of that row (the group mean after rounding) and of nothing
  else; for a finite cell x it is Aggressive Increase iff 5 < x, Moderate Increase iff
  1 < x \<le> 5, Stable iff \<bar>x\<bar> \<le> 1, Moderate Decrease iff -5 < x < -1, and Aggressive
  Decrease iff x \<le> -5.
\<close>

theorem strategy_thresholds:
  assumes "sort_values_desc argsort" and "row \<in> set (analyze_ota_changes argsort df)"
    and "avg_change_pct row = Fin x"
  shows "(pricing_strategy row = ''Aggressive Increase'' \<longleftrightarrow> 5 < x) \<and>
         (pricing_strategy row = ''Moderate Increase'' \<longleftrightarrow> 1 < x \<and> x \<le> 5) \<and>
         (pricing_strategy row = ''Stable'' \<longleftrightarrow> \<bar>x\<bar> \<le> 1) \<and>
         (pricing_strategy row = ''Moderate Decrease'' \<longleftrightarrow> -5 < x \<and> x < -1) \<and>
         (pricing_strategy row = ''Aggressive Decrease'' \<longleftrightarrow> x \<le> -5) \<and>
         pricing_strategy row = strategy (avg_change_pct row)"
proof -
  from assms(1,2) obtain k where "row = ota_row df k"
    by (auto simp: analyze_ota_changes_set)
  then have "pricing_strategy row = strategy (avg_change_pct row)"
    by (simp add: ota_row_simps(9))
  with assms(3) have s: "pricing_strategy row = strategy (Fin x)" 
    and t: "strategy (avg_change_pct row) = strategy (Fin x)" by simp_all
  show ?thesis unfolding t unfolding s strategy_Fin by auto
qed

theorem strategy_thresholds_witness:
  "pricing_strategy (ota_row frame_minus5 ''AgentX'') = ''Aggressive Decrease'' \<and>
   pricing_strategy (ota_row frame_minus5 ''AgentX'') = strategy (Fin (-5))"
proof -
  have mem: "ota_row frame_minus5 ''AgentX'' \<in> set (analyze_ota_changes nargsort frame_minus5)"
    by (simp add: analyze_ota_minus5)
  from strategy_thresholds [OF nargsort_contract mem avg_minus5]
  show ?thesis by (simp add: strategy_Fin)
qed




subsection \<open>Rounding\<close>

lemma rint_near: "\<bar>of_int (rint r) - r\<bar> \<le> 1/2"
proof -
  have "of_int \<lfloor>r\<rfloor> \<le> r" "r < of_int \<lfloor>r\<rfloor> + 1" by linarith+
  then show ?thesis
    by (auto simp: rint_def Let_def)
qed

lemma round2_near: "\<bar>round2 r - r\<bar> \<le> 1/200"
proof -
  have "\<bar>round2 r - r\<bar> = \<bar>of_int (rint (r * 100)) - r * 100\<bar> / 100"
    by (simp add: round2_def field_simps)
  also have "\<dots> \<le> (1/2) / 100"
    by (rule divide_right_mono [OF rint_near]) simp
  finally show ?thesis by simp
qed

lemma two_decimals_fround2: "two_decimals (fround2 v)"
  by (cases v) (simp_all add: round2_def)

lemma rint_5004: "rint (2502 / 5) = 500"
proof -
  have "\<lfloor>2502 / 5 :: real\<rfloor> = 500" by (simp add: floor_eq_iff)
  then show ?thesis by (simp add: rint_def)
qed

lemma change_pct_5004: "map change_pct frame_5004 = [Fin (1251 / 250)]"
  by (simp add: frame_5004_def delta_row_simps obs_def fdiv_def)

lemma keys_5004:
  "group_keys gate frame_5004 = [''AgentX'']"
  "group_keys route frame_5004 = [bcn_mad]"
  by (simp_all add: group_keys_def frame_5004_def delta_row_simps obs_def bcn_mad_def)

lemma analyze_ota_5004:
  "analyze_ota_changes nargsort frame_5004 = [ota_row frame_5004 ''AgentX'']"
  unfolding analyze_ota_changes_def Let_def keys_5004
  by (simp add: take_rows_single [OF nargsort_contract])

lemma analyze_route_5004:
  "analyze_route_changes nargsort frame_5004 = [route_row frame_5004 bcn_mad]"
  unfolding analyze_route_changes_def Let_def keys_5004
  by (simp add: take_rows_single [OF nargsort_contract])

lemma group_5004:
  "group_rows gate frame_5004 ''AgentX'' = frame_5004"
  "group_rows route frame_5004 bcn_mad = frame_5004"
  by (simp_all add: group_rows_def frame_5004_def delta_row_simps obs_def bcn_mad_def)

lemma mean_5004: "agg_mean (map change_pct frame_5004) = Fin (1251 / 250)"
  by (simp add: change_pct_5004 agg_mean_def dropna_def)

lemma round_5004: "round2 (1251 / 250) = 5"
  using rint_5004 by (simp add: round2_def)

text \<open>
  Claim C10.  Every statistic of every summary row, by agent and by route, is the exact
  statistic of the group rounded to two decimals: it differs from the exact value by at
  most 0.005 and its hundredfold is an integer.  The strategy label is computed from the
  rounded mean percentage change, so a group with an exact mean of 5.004 has the mean
  5.0 and the label Moderate Increase, although the exact mean exceeds 5.
\<close>

theorem statistics_rounded:
  assumes "sort_values_desc argsort"
  shows "(\<forall>row \<in> set (analyze_ota_changes argsort df).
            let g = group_rows gate df (idx row) in
              avg_price_diff row = fround2 (agg_mean (map price_diff g)) \<and>
              std_price_diff row = fround2 (agg_std (map price_diff g)) \<and>
              avg_change_pct row = fround2 (agg_mean (map change_pct g)) \<and>
              min_change_pct row = fround2 (agg_fmin (map change_pct g)) \<and>
              max_change_pct row = fround2 (agg_fmax (map change_pct g)) \<and>
              avg_current_price row = fround2 (agg_mean (map price_eur_new g)) \<and>
              pricing_strategy row = strategy (fround2 (agg_mean (map change_pct g))) \<and>
              two_decimals (avg_price_diff row) \<and> two_decimals (std_price_diff row) \<and>
              two_decimals (avg_change_pct row) \<and> two_decimals (min_change_pct row) \<and>
              two_decimals (max_change_pct row) \<and> two_decimals (avg_current_price row)) \<and>
         (\<forall>row \<in> set (analyze_route_changes argsort df).
            let g = group_rows route df (idx row) in
              avg_price_diff row = fround2 (agg_mean (map price_diff g)) \<and>
              std_price_diff row = fround2 (agg_std (map price_diff g)) \<and>
              avg_change_pct row = fround2 (agg_mean (map change_pct g)) \<and>
              min_change_pct row = fround2 (agg_fmin (map change_pct g)) \<and>
              max_change_pct row = fround2 (agg_fmax (map change_pct g)) \<and>
              two_decimals (avg_price_diff row) \<and> two_decimals (std_price_diff row) \<and>
              two_decimals (avg_change_pct row) \<and> two_decimals (min_change_pct row) \<and>
              two_decimals (max_change_pct row)) \<and>
         (\<forall>r. \<bar>round2 r - r\<bar> \<le> 1/200)"
proof (intro conjI ballI allI)
  fix row assume "row \<in> set (analyze_ota_changes argsort df)"
  then obtain k where "row = ota_row df k"
    by (auto simp: analyze_ota_changes_set [OF assms])
  then show "let g = group_rows gate df (idx row) in
              avg_price_diff row = fround2 (agg_mean (map price_diff g)) \<and>
              std_price_diff row = fround2 (agg_std (map price_diff g)) \<and>
              avg_change_pct row = fround2 (agg_mean (map change_pct g)) \<and>
              min_change_pct row = fround2 (agg_fmin (map change_pct g)) \<and>
              max_change_pct row = fround2 (agg_fmax (map change_pct g)) \<and>
              avg_current_price row = fround2 (agg_mean (map price_eur_new g)) \<and>
              pricing_strategy row = strategy (fround2 (agg_mean (map change_pct g))) \<and>
              two_decimals (avg_price_diff row) \<and> two_decimals (std_price_diff row) \<and>
              two_decimals (avg_change_pct row) \<and> two_decimals (min_change_pct row) \<and>
              two_decimals (max_change_pct row) \<and> two_decimals (avg_current_price row)"
    by (simp add: ota_row_simps two_decimals_fround2)
next
  fix row assume "row \<in> set (analyze_route_changes argsort df)"
  then obtain k where "row = route_row df k"
    by (auto simp: analyze_route_changes_set [OF assms])
  then show "let g = group_rows route df (idx row) in
              avg_price_diff row = fround2 (agg_mean (map price_diff g)) \<and>
              std_price_diff row = fround2 (agg_std (map price_diff g)) \<and>
              avg_change_pct row = fround2 (agg_mean (map change_pct g)) \<and>
              min_change_pct row = fround2 (agg_fmin (map change_pct g)) \<and>
              max_change_pct row = fround2 (agg_fmax (map change_pct g)) \<and>
              two_decimals (avg_price_diff row) \<and> two_decimals (std_price_diff row) \<and>
              two_decimals (avg_change_pct row) \<and> two_decimals (min_change_pct row) \<and>
              two_decimals (max_change_pct row)"
    by (simp add: route_row_simps two_decimals_fround2)
next
  show "\<bar>round2 r - r\<bar> \<le> 1/200" for r by (rule round2_near)
qed

theorem statistics_rounded_witness:
  "agg_mean (map change_pct (group_rows gate frame_5004 ''AgentX'')) = Fin (1251 / 250) \<and>
   strategy (Fin (1251 / 250)) = ''Aggressive Increase'' \<and>
   avg_change_pct (ota_row frame_5004 ''AgentX'') = Fin 5 \<and>
   pricing_strategy (ota_row frame_5004 ''AgentX'') = ''Moderate Increase'' \<and>
   avg_change_pct (route_row frame_5004 bcn_mad) = Fin 5"
proof -
  from statistics_rounded [OF nargsort_contract, of frame_5004]
  have "avg_change_pct (ota_row frame_5004 ''AgentX'') = Fin 5 \<and>
        pricing_strategy (ota_row frame_5004 ''AgentX'') = strategy (Fin 5) \<and>
        avg_change_pct (route_row frame_5004 bcn_mad) = Fin 5"
    by (simp add: analyze_ota_5004 analyze_route_5004 ota_row_simps(1) route_row_simps(1)
        group_5004 mean_5004 round_5004 Let_def)
  then show ?thesis
    by (simp add: group_5004 mean_5004 strategy_Fin)
qed

section \<open>Zero prices and empty joins\<close>

lemma fdiv_zero:
  "fdiv a 0 = (if 0 < a then PInf else if a < 0 then NInf else NaN)"
  by (simp add: fdiv_def)

lemma store_zero_eval:
  "compare_snapshots store_zero ''20250617'' ''20250618'' =
     Inr [delta_row (obs ''BCN'' ''MAD'' ''2025-07-01'' ''AgentX'' 50,
                     obs ''BCN'' ''MAD'' ''2025-07-01'' ''AgentX'' 0),
          delta_row (obs ''BCN'' ''MAD'' ''2025-07-01'' ''AgentY'' 0,
                     obs ''BCN'' ''MAD'' ''2025-07-01'' ''AgentY'' 0)]"
  by (simp add: compare_snapshots_def load_snapshot_def store_zero_def merge_inner_def
      merge_cols_def obs_def)

lemma store_zero_loaded:
  "store_zero ''20250617'' = Some [obs ''BCN'' ''MAD'' ''2025-07-01'' ''AgentX'' 0,
                       obs ''BCN'' ''MAD'' ''2025-07-01'' ''AgentY'' 0]"
  "store_zero ''20250618'' = Some [obs ''BCN'' ''MAD'' ''2025-07-01'' ''AgentX'' 50,
                       obs ''BCN'' ''MAD'' ''2025-07-01'' ''AgentY'' 0]"
  by (simp_all add: store_zero_def)

lemma merge_inner_disjoint:
  "\<forall>l \<in> set left. \<forall>r \<in> set right. merge_cols l \<noteq> merge_cols r \<Longrightarrow> merge_inner left right = []"
  by (induction left) (auto simp: merge_inner_def filter_empty_conv)

lemma contract_Nil:
  assumes "sort_values_desc argsort"
  shows "argsort [] = []"
  using contract_set [OF assms, of "[]"] by simp

lemma analyze_Nil:
  assumes "sort_values_desc argsort"
  shows "analyze_ota_changes argsort [] = []" "analyze_route_changes argsort [] = []"
  by (simp_all add: analyze_ota_changes_def analyze_route_changes_def group_keys_def
      take_rows_def contract_Nil [OF assms])

lemma store_disjoint_loaded:
  "store_disjoint ''20250617'' = Some [obs ''IST'' ''NRT'' ''2025-08-10'' ''AgentY'' 500]"
  "store_disjoint ''20250618'' = Some [obs ''BCN'' ''MAD'' ''2025-07-01'' ''AgentX'' 84]"
  by (simp_all add: store_disjoint_def)

text \<open>
  Claim C5, as stated, fails: there is no Undefined category.  With an old price of zero
  a positive new price gives an infinite percentage change, which is put into Major
  Increase; a new price of zero gives NaN, which gets no category at all.
\<close>

theorem zero_old_price_counterexample:
  "map_sum id (map (\<lambda>d. (gate d, price_eur_old d, price_eur_new d, change_pct d, change_type d)))
     (compare_snapshots store_zero ''20250617'' ''20250618'') =
   Inr [(Some ''AgentX'', Fin 0, Fin 50, PInf, Some ''Major Increase (>5%)''),
        (Some ''AgentY'', Fin 0, Fin 0, NaN, None)]"
  by (simp add: store_zero_eval delta_row_simps obs_def fdiv_zero cut_special)

text \<open>
  Claim C5, amended.  When both snapshots are present \<open>compare_snapshots\<close> returns a
  frame and raises nothing, whatever the prices.  A row whose percentage change is NaN
  has no category.  For a row with an old price of zero: if the new price is positive
  the percentage change is plus infinity and the category is Major Increase; if the new
  price is zero the percentage change is NaN and the row has no category; if the new
  price is negative the percentage change is minus infinity and the row has no category.
\<close>

theorem zero_old_price_policy:
  assumes "store date1 = Some older" and "store date2 = Some newer"
  shows "\<exists>ds. compare_snapshots store date1 date2 = Inr ds \<and>
           (\<forall>d \<in> set ds.
              (change_pct d = NaN \<longrightarrow> change_type d = None) \<and>
              (price_eur_old d = Fin 0 \<longrightarrow>
                 (\<exists>new. price_eur_new d = Fin new \<and>
                    (0 < new \<longrightarrow>
                       change_pct d = PInf \<and> change_type d = Some ''Major Increase (>5%)'') \<and>
                    (new = 0 \<longrightarrow> change_pct d = NaN \<and> change_type d = None) \<and>
                    (new < 0 \<longrightarrow> change_pct d = NInf \<and> change_type d = None))))"
proof (intro exI conjI ballI)
  show "compare_snapshots store date1 date2 = Inr (map delta_row (merge_inner newer older))"
    using assms by (rule compare_snapshots_loaded)
next
  fix d assume "d \<in> set (map delta_row (merge_inner newer older))"
  then obtain p where d: "d = delta_row p" by auto
  show "change_pct d = NaN \<longrightarrow> change_type d = None"
    by (simp add: d delta_row_simps(5) cut_special)
  show "price_eur_old d = Fin 0 \<longrightarrow>
          (\<exists>new. price_eur_new d = Fin new \<and>
             (0 < new \<longrightarrow>
                change_pct d = PInf \<and> change_type d = Some ''Major Increase (>5%)'') \<and>
             (new = 0 \<longrightarrow> change_pct d = NaN \<and> change_type d = None) \<and>
             (new < 0 \<longrightarrow> change_pct d = NInf \<and> change_type d = None))"
    unfolding d delta_row_simps(5)
    by (simp add: delta_row_simps(1-4) fdiv_zero cut_special)
qed

theorem zero_old_price_policy_witness:
  "change_type (delta_row (obs ''BCN'' ''MAD'' ''2025-07-01'' ''AgentX'' 50,
                           obs ''BCN'' ''MAD'' ''2025-07-01'' ''AgentX'' 0))
     = Some ''Major Increase (>5%)'' \<and>
   change_type (delta_row (obs ''BCN'' ''MAD'' ''2025-07-01'' ''AgentY'' 0,
                           obs ''BCN'' ''MAD'' ''2025-07-01'' ''AgentY'' 0)) = None"
proof -
  let ?a = "delta_row (obs ''BCN'' ''MAD'' ''2025-07-01'' ''AgentX'' 50,
                       obs ''BCN'' ''MAD'' ''2025-07-01'' ''AgentX'' 0)"
  let ?b = "delta_row (obs ''BCN'' ''MAD'' ''2025-07-01'' ''AgentY'' 0,
                       obs ''BCN'' ''MAD'' ''2025-07-01'' ''AgentY'' 0)"
  from zero_old_price_policy [of store_zero "''20250617''" _ "''20250618''", OF store_zero_loaded]
  have pol: "\<forall>d \<in> set [?a, ?b].
              (change_pct d = NaN \<longrightarrow> change_type d = None) \<and>
              (price_eur_old d = Fin 0 \<longrightarrow>
                 (\<exists>new. price_eur_new d = Fin new \<and>
                    (0 < new \<longrightarrow>
                       change_pct d = PInf \<and> change_type d = Some ''Major Increase (>5%)'') \<and>
                    (new = 0 \<longrightarrow> change_pct d = NaN \<and> change_type d = None) \<and>
                    (new < 0 \<longrightarrow> change_pct d = NInf \<and> change_type d = None)))"
    unfolding store_zero_eval by blast
  have a: "price_eur_old ?a = Fin 0" "price_eur_new ?a = Fin 50"
    by (simp_all add: delta_row_simps obs_def)
  have b: "price_eur_old ?b = Fin 0" "price_eur_new ?b = Fin 0"
    by (simp_all add: delta_row_simps obs_def)
  from pol a b show ?thesis by simp
qed

text \<open>
  Claim C6.  For two non-empty snapshots without a common key \<open>compare_snapshots\<close>
  returns the empty frame, and on the empty frame both summaries are empty, with a total
  flight count of zero; no group is formed, so no mean of an empty group is taken.
\<close>

theorem no_common_key_empty:
  assumes "store date1 = Some older" and "store date2 = Some newer"
    and "older \<noteq> []" and "newer \<noteq> []"
    and "\<forall>n \<in> set newer. \<forall>old \<in> set older. merge_cols n \<noteq> merge_cols old"
    and "sort_values_desc argsort"
  shows "compare_snapshots store date1 date2 = Inr [] \<and>
         analyze_ota_changes argsort [] = [] \<and>
         analyze_route_changes argsort [] = [] \<and>
         sum_list (map total_flights (analyze_ota_changes argsort [])) = 0 \<and>
         sum_list (map total_flights (analyze_route_changes argsort [])) = 0"
  using assms(1,2,5)
  by (simp add: compare_snapshots_loaded merge_inner_disjoint analyze_Nil [OF assms(6)])

theorem no_common_key_empty_witness:
  "compare_snapshots store_disjoint ''20250617'' ''20250618'' = Inr [] \<and>
   analyze_ota_changes nargsort [] = [] \<and>
   analyze_route_changes nargsort [] = []"
proof -
  have "compare_snapshots store_disjoint ''20250617'' ''20250618'' = Inr [] \<and>
         analyze_ota_changes nargsort [] = [] \<and>
         analyze_route_changes nargsort [] = [] \<and>
         sum_list (map total_flights (analyze_ota_changes nargsort [])) = 0 \<and>
         sum_list (map total_flights (analyze_route_changes nargsort [])) = 0"
    by (rule no_common_key_empty [of store_disjoint "''20250617''" _ "''20250618''",
          OF store_disjoint_loaded _ _ _ nargsort_contract])
       (simp_all add: obs_def merge_cols_def)
  then show ?thesis by blast
qed

end
